theory Spec2Isabelle
  imports Main "HOL-Library.Word"
begin

section \<open>The OpenZL JNI binding (openzl\_jni.c) as HOL functions\<close>

text \<open>
  The binding is glue code between a Java virtual machine and the OpenZL compression
  library. Neither collaborator is part of the file, so both are parameters of the model:
  a record \<open>world\<close> holds, for every JNI function, C library function and OpenZL function
  the binding calls, what that call answers. Each binding function is a HOL function of
  the world and of its Java arguments; it returns its Java return value together with the
  list of effects it performed, in program order (allocations, releases, pins of managed
  arrays, library calls, exceptions thrown).

  C integers are words: \<open>jint\<close> and \<open>jsize\<close> are 32 bits (read signed with \<open>sint\<close>),
  \<open>jlong\<close>, \<open>size_t\<close>, \<open>uintptr_t\<close> and pointers are 64 bits. The null pointer is 0.
  Where C leaves the behaviour undefined (a read outside an allocation, a dereference of
  a pointer that holds no handle record) the model stops with the outcome \<open>UB\<close>.
\<close>

subsection \<open>Values\<close>

type_synonym jbyte = "8 word"
type_synonym jint = "32 word"
type_synonym jsize = "32 word"
type_synonym jlong = "64 word"
type_synonym size_t = "64 word"
type_synonym ptr = "64 word"
type_synonym jobject = nat

text \<open>\<open>ZL_Report\<close>: either an error code or a size. \<open>ZL_isError\<close> tests the tag.\<close>

datatype ZL_Report = ZL_error nat | ZL_value size_t

fun ZL_isError :: "ZL_Report \<Rightarrow> bool" where
  "ZL_isError (ZL_error c) = True"
| "ZL_isError (ZL_value n) = False"

text \<open>The binding reads the code of an error report only, and the value of a valid one only.\<close>

fun ZL_errorCode :: "ZL_Report \<Rightarrow> nat" where
  "ZL_errorCode (ZL_error c) = c"
| "ZL_errorCode (ZL_value n) = 0"

fun ZL_validResult :: "ZL_Report \<Rightarrow> size_t" where
  "ZL_validResult (ZL_value n) = n"
| "ZL_validResult (ZL_error c) = 0"

text \<open>The built-in graphs of the library that the binding names.\<close>

datatype ZL_GraphID =
    ZL_GRAPH_ZSTD
  | ZL_GRAPH_COMPRESS_GENERIC
  | ZL_GRAPH_FIELD_LZ
  | ZL_GRAPH_STORE
  | ZL_GRAPH_FSE
  | ZL_GRAPH_HUFFMAN
  | ZL_GRAPH_ENTROPY
  | ZL_GRAPH_BITPACK
  | ZL_GRAPH_CONSTANT

datatype ZL_CParam = ZL_CParam_formatVersion | ZL_CParam_compressionLevel

datatype ZL_CParam_value = ZL_MAX_FORMAT_VERSION | ZL_COMPRESSIONLEVEL_DEFAULT

text \<open>What a typed reference describes: a byte range, or \<open>count\<close> elements of \<open>width\<close>
  bytes each (the elements given as their bytes in memory).\<close>

datatype ZL_TypedRef =
    Serial "jbyte list"
  | Numeric nat nat "jbyte list list"

record ZL_OutputInfo =
  otype :: nat
  fixedWidth :: "32 word"
  decompressedByteSize :: "64 word"
  numElts :: "64 word"

record openzl_compressor_t =
  ctx :: ptr
  compressor :: ptr
  graph_id :: ZL_GraphID

record openzl_decompressor_t =
  dctx :: ptr

text \<open>The arguments the binding passes to the constructor of \<open>net.openzl.CompressionInfo\<close>.\<close>

record CompressionInfo =
  info_decompressed_size :: jlong
  info_compressed_size :: jlong
  info_graph :: jobject
  info_data_type :: string

subsection \<open>Effects\<close>

text \<open>The managed arrays a call receives: its source (\<open>src\<close>, \<open>data\<close> or
  \<open>compressed_data\<close> in the C code) and, for the buffer variants, its destination.\<close>

datatype jarray = Src | Dest

text \<open>The last argument of \<open>Release<Type>ArrayElements\<close>: 0 copies the content back,
  \<open>JNI_ABORT\<close> discards it.\<close>

datatype release_mode = Commit | JNI_ABORT

datatype resource = Handle_record | CCtx | Compressor | DCtx | Scratch | TypedRef | FrameInfo

datatype jclass_name =
    OpenZLException
  | OutOfMemoryError
  | IllegalArgumentException
  | CompressionInfo_class
  | CompressionGraph_class

datatype native_call =
    CCtx_setParameter ZL_CParam ZL_CParam_value
  | Compressor_selectStartingGraphID ZL_GraphID
  | CCtx_refCompressor
  | CCtx_compressTypedRef
  | getDecompressedSize
  | decompress
  | DCtx_decompressTyped
  | getCompressedSize
  | FrameInfo_getDecompressedSize
  | FrameInfo_getOutputType

datatype event =
    Alloc resource
  | Release resource
  | Pin jarray
  | Unpin jarray release_mode
  | FindClass jclass_name
  | ThrowNew jclass_name string
  | Native native_call

datatype 'a outcome = Ret 'a | UB

datatype elem_kind = JByte | JInt | JLong | JFloat | JDouble

datatype malloc_request =
    For_compressor_record
  | For_decompressor_record
  | For_scratch size_t

subsection \<open>The world outside the binding\<close>

text \<open>
  One field for each external function. A function that returns a pointer returns a
  \<open>ptr\<close> (0 for \<open>NULL\<close>); a JNI function that returns a reference or \<open>NULL\<close> is a
  \<open>bool\<close> (\<open>True\<close>: not \<open>NULL\<close>). A library function that writes into a destination
  buffer returns the bytes it wrote, from the start of the buffer. A frame-info object is
  known by the frame bytes it was created from.
\<close>

record world =
  jvm_FindClass :: "jclass_name \<Rightarrow> bool"
  jvm_GetArrayElements :: "jarray \<Rightarrow> bool"
  jvm_NewArray :: "elem_kind \<Rightarrow> nat \<Rightarrow> bool"
  jvm_GetMethodID :: "jclass_name \<Rightarrow> string \<Rightarrow> bool"
  jvm_GetStaticMethodID :: "jclass_name \<Rightarrow> string \<Rightarrow> bool"
  jvm_CompressionGraph_fromId :: "jint \<Rightarrow> jobject option"
  jvm_NewStringUTF :: "string \<Rightarrow> bool"
  jvm_NewObject :: "jclass_name \<Rightarrow> bool"
  malloc :: "malloc_request \<Rightarrow> ptr"
  ZL_CCtx_create :: ptr
  ZL_Compressor_create :: ptr
  ZL_DCtx_create :: ptr
  ZL_CCtx_setParameter :: "ptr \<Rightarrow> ZL_CParam \<Rightarrow> ZL_CParam_value \<Rightarrow> ZL_Report"
  ZL_Compressor_selectStartingGraphID :: "ptr \<Rightarrow> ZL_GraphID \<Rightarrow> ZL_Report"
  ZL_CCtx_refCompressor :: "ptr \<Rightarrow> ptr \<Rightarrow> ZL_Report"
  ZL_ErrorCode_toString :: "nat \<Rightarrow> string"
  ZL_compressBound :: "size_t \<Rightarrow> size_t"
  ZL_TypedRef_createSerial :: "jbyte list \<Rightarrow> ptr"
  ZL_TypedRef_createNumeric :: "nat \<Rightarrow> jbyte list list \<Rightarrow> ptr"
  ZL_CCtx_compressTypedRef :: "ptr \<Rightarrow> size_t \<Rightarrow> ZL_TypedRef \<Rightarrow> ZL_Report \<times> jbyte list"
  ZL_getDecompressedSize :: "jbyte list \<Rightarrow> ZL_Report"
  ZL_decompress :: "size_t \<Rightarrow> jbyte list \<Rightarrow> ZL_Report \<times> jbyte list"
  ZL_DCtx_decompressTyped ::
    "ptr \<Rightarrow> size_t \<Rightarrow> jbyte list \<Rightarrow> ZL_Report \<times> ZL_OutputInfo \<times> jbyte list"
  ZL_getCompressedSize :: "jbyte list \<Rightarrow> ZL_Report"
  ZL_FrameInfo_create :: "jbyte list \<Rightarrow> ptr"
  ZL_FrameInfo_getDecompressedSize :: "jbyte list \<Rightarrow> nat \<Rightarrow> ZL_Report"
  ZL_FrameInfo_getOutputType :: "jbyte list \<Rightarrow> nat \<Rightarrow> ZL_Report"

subsection \<open>Throwing\<close>

text \<open>\<open>throw_exception\<close> looks the class up and throws only when the lookup succeeds.\<close>

definition throw_exception :: "world \<Rightarrow> jclass_name \<Rightarrow> string \<Rightarrow> event list" where
  "throw_exception w exception_class message =
     (if jvm_FindClass w exception_class
      then [FindClass exception_class, ThrowNew exception_class message]
      else [FindClass exception_class])"

definition throw_openzl_exception :: "world \<Rightarrow> string \<Rightarrow> event list" where
  "throw_openzl_exception w message = throw_exception w OpenZLException message"

definition throw_out_of_memory :: "world \<Rightarrow> event list" where
  "throw_out_of_memory w = throw_exception w OutOfMemoryError ''Failed to allocate memory''"

definition throw_openzl_report_error :: "world \<Rightarrow> ZL_Report \<Rightarrow> event list" where
  "throw_openzl_report_error w report =
     (if ZL_isError report
      then throw_openzl_exception w (ZL_ErrorCode_toString w (ZL_errorCode report))
      else [])"

subsection \<open>Opening and closing handles\<close>

text \<open>The \<open>switch\<close> of \<open>createCompressor\<close> on the graph code.\<close>

definition selected_graph :: "jint \<Rightarrow> ZL_GraphID" where
  "selected_graph graph_code =
     (if graph_code = 0 then ZL_GRAPH_ZSTD
      else if graph_code = 1 then ZL_GRAPH_COMPRESS_GENERIC
      else if graph_code = 2 then ZL_GRAPH_FIELD_LZ
      else if graph_code = 3 then ZL_GRAPH_STORE
      else if graph_code = 4 then ZL_GRAPH_FSE
      else if graph_code = 5 then ZL_GRAPH_HUFFMAN
      else if graph_code = 6 then ZL_GRAPH_ENTROPY
      else if graph_code = 7 then ZL_GRAPH_BITPACK
      else if graph_code = 8 then ZL_GRAPH_CONSTANT
      else if graph_code = 9 then ZL_GRAPH_COMPRESS_GENERIC
      else ZL_GRAPH_ZSTD)"

text \<open>
  \<open>createCompressor\<close> returns the handle (the address of the record, 0 on failure), the
  record it left at that address (\<open>None\<close> when it freed it or never had it) and its
  effects.
\<close>

definition createCompressor ::
  "world \<Rightarrow> jint \<Rightarrow> jlong \<times> openzl_compressor_t option \<times> event list" where
  "createCompressor w graph_code =
    (let p = malloc w For_compressor_record in
     if p = 0 then (0, None, throw_out_of_memory w)
     else
     let c = ZL_CCtx_create w; t1 = [Alloc Handle_record] in
     if c = 0 then
       (0, None, t1 @ [Release Handle_record]
          @ throw_openzl_exception w ''Failed to create compression context'')
     else
     let d = ZL_Compressor_create w; t2 = t1 @ [Alloc CCtx] in
     if d = 0 then
       (0, None, t2 @ [Release CCtx, Release Handle_record]
          @ throw_openzl_exception w ''Failed to create compressor object'')
     else
     let g = selected_graph graph_code;
         undo = [Release Compressor, Release CCtx, Release Handle_record];
         r1 = ZL_CCtx_setParameter w c ZL_CParam_formatVersion ZL_MAX_FORMAT_VERSION;
         t3 = t2 @ [Alloc Compressor,
                    Native (CCtx_setParameter ZL_CParam_formatVersion ZL_MAX_FORMAT_VERSION)] in
     if ZL_isError r1 then (0, None, t3 @ undo @ throw_openzl_report_error w r1)
     else
     let r2 = ZL_CCtx_setParameter w c ZL_CParam_compressionLevel ZL_COMPRESSIONLEVEL_DEFAULT;
         t4 = t3 @ [Native (CCtx_setParameter ZL_CParam_compressionLevel
                              ZL_COMPRESSIONLEVEL_DEFAULT)] in
     if ZL_isError r2 then (0, None, t4 @ undo @ throw_openzl_report_error w r2)
     else
     let r3 = ZL_Compressor_selectStartingGraphID w d g;
         t5 = t4 @ [Native (Compressor_selectStartingGraphID g)] in
     if ZL_isError r3 then (0, None, t5 @ undo @ throw_openzl_report_error w r3)
     else
     let r4 = ZL_CCtx_refCompressor w c d;
         t6 = t5 @ [Native CCtx_refCompressor] in
     if ZL_isError r4 then (0, None, t6 @ undo @ throw_openzl_report_error w r4)
     else (p, Some \<lparr>ctx = c, compressor = d, graph_id = g\<rparr>, t6))"

text \<open>\<open>destroyCompressor\<close>: nothing for the handle 0; otherwise the descriptor, the
  context (each when not \<open>NULL\<close>) and the record are freed. Reading the record of a
  pointer that holds none is undefined.\<close>

definition destroyCompressor ::
  "(ptr \<Rightarrow> openzl_compressor_t option) \<Rightarrow> jlong \<Rightarrow> unit outcome \<times> event list" where
  "destroyCompressor heap compressor_ptr =
    (if compressor_ptr = 0 then (Ret (), [])
     else if heap compressor_ptr = None then (UB, [])
     else
     let h = the (heap compressor_ptr) in
     (Ret (), (if compressor h \<noteq> 0 then [Release Compressor] else [])
        @ (if ctx h \<noteq> 0 then [Release CCtx] else [])
        @ [Release Handle_record]))"


definition destroyDecompressor ::
  "(ptr \<Rightarrow> openzl_decompressor_t option) \<Rightarrow> jlong \<Rightarrow> unit outcome \<times> event list" where
  "destroyDecompressor heap decompressor_ptr =
    (if decompressor_ptr = 0 then (Ret (), [])
     else if heap decompressor_ptr = None then (UB, [])
     else
     let h = the (heap decompressor_ptr) in
     (Ret (), (if dctx h \<noteq> 0 then [Release DCtx] else []) @ [Release Handle_record]))"

subsection \<open>Memory the binding reads and writes\<close>

text \<open>
  The bytes at \<open>data + off\<close>, \<open>len\<close> of them, of a pinned array. The C code does not check
  the window; outside the array the read is undefined (\<open>None\<close>).
\<close>

definition region :: "jbyte list \<Rightarrow> jint \<Rightarrow> jint \<Rightarrow> jbyte list option" where
  "region a off len =
     (if 0 \<le> sint off \<and> 0 \<le> sint len \<and> nat (sint off) + nat (sint len) \<le> length a
      then Some (take (nat (sint len)) (drop (nat (sint off)) a))
      else None)"

text \<open>
  The destination array after the library wrote \<open>written\<close> at \<open>dest + off\<close>; a write
  outside the array is undefined.
\<close>

definition write_at :: "jbyte list \<Rightarrow> jint \<Rightarrow> jbyte list \<Rightarrow> jbyte list option" where
  "write_at dest off written =
     (if 0 \<le> sint off \<and> nat (sint off) + length written \<le> length dest
      then Some (take (nat (sint off)) dest @ written
                  @ drop (nat (sint off) + length written) dest)
      else None)"

text \<open>
  \<open>New<Type>Array\<close> with a \<open>jsize\<close> length: \<open>NULL\<close> for a negative length or when the
  virtual machine cannot allocate; otherwise an array of that many elements.
\<close>

definition NewArray :: "world \<Rightarrow> elem_kind \<Rightarrow> jsize \<Rightarrow> nat option" where
  "NewArray w k n =
     (if 0 \<le> sint n \<and> jvm_NewArray w k (nat (sint n)) then Some (nat (sint n)) else None)"

text \<open>
  \<open>Set<Type>ArrayRegion\<close> from a scratch buffer of \<open>cap\<close> bytes into which the library wrote
  \<open>written\<close>: it reads \<open>n\<close> bytes from the start. Reading past the allocation, or bytes
  nobody wrote, is undefined.
\<close>

definition copy_from :: "nat \<Rightarrow> jbyte list \<Rightarrow> nat \<Rightarrow> jbyte list option" where
  "copy_from cap written n =
     (if n \<le> cap \<and> n \<le> length written then Some (take n written) else None)"

fun elem_size :: "elem_kind \<Rightarrow> nat" where
  "elem_size JByte = 1"
| "elem_size JInt = 4"
| "elem_size JLong = 8"
| "elem_size JFloat = 4"
| "elem_size JDouble = 8"

text \<open>\<open>n\<close> elements of \<open>width\<close> bytes each, cut from a byte sequence.\<close>

definition elements :: "nat \<Rightarrow> nat \<Rightarrow> jbyte list \<Rightarrow> jbyte list list" where
  "elements width n bytes = map (\<lambda>i. take width (drop (i * width) bytes)) [0..<n]"

subsection \<open>Compression\<close>

text \<open>
  Every operation takes the world, the handle records in native memory (by address), the
  handle and its Java arguments. Operations that return a new array return \<open>None\<close> for
  \<open>NULL\<close>; the buffer variants return their \<open>jint\<close> and the destination array as they
  leave it.
\<close>

definition compressSerial ::
  "world \<Rightarrow> (ptr \<Rightarrow> openzl_compressor_t option) \<Rightarrow> jlong \<Rightarrow> jbyte list \<Rightarrow> jint \<Rightarrow> jint
     \<Rightarrow> jbyte list option outcome \<times> event list" where
  "compressSerial w heap compressor_ptr src src_off src_len =
    (if compressor_ptr = 0 then
       (Ret None, throw_openzl_exception w ''[Error OpenZL JNI] Invalid compressor'')
     else if \<not> jvm_GetArrayElements w Src then (Ret None, throw_out_of_memory w)
     else
     let max_compressed_size = ZL_compressBound w (scast src_len);
         t1 = [Pin Src] in
     if malloc w (For_scratch max_compressed_size) = 0 then
       (Ret None, t1 @ [Unpin Src JNI_ABORT] @ throw_out_of_memory w)
     else
     let t2 = t1 @ [Alloc Scratch] in
     if region src src_off src_len = None then (UB, t2)
     else
     let input = the (region src src_off src_len) in
     if ZL_TypedRef_createSerial w input = 0 then
       (Ret None, t2 @ [Unpin Src JNI_ABORT, Release Scratch]
          @ throw_openzl_exception w
              ''[Error OpenZL JNI] Failed to create typed reference for serial data'')
     else
     let t3 = t2 @ [Alloc TypedRef] in
     if heap compressor_ptr = None then (UB, t3)
     else
     let h = the (heap compressor_ptr);
         (compress_report, written) =
           ZL_CCtx_compressTypedRef w (ctx h) max_compressed_size (Serial input);
         t4 = t3 @ [Native CCtx_compressTypedRef, Release TypedRef, Unpin Src JNI_ABORT] in
     if ZL_isError compress_report then
       (Ret None, t4 @ [Release Scratch] @ throw_openzl_report_error w compress_report)
     else
     let compressed_size = ZL_validResult compress_report;
         result = NewArray w JByte (ucast compressed_size) in
     if result = None then (Ret None, t4 @ [Release Scratch] @ throw_out_of_memory w)
     else
     let copied = copy_from (unat max_compressed_size) written (the result) in
     if copied = None then (UB, t4)
     else (Ret copied, t4 @ [Release Scratch]))"

definition compressSerialToBuffer ::
  "world \<Rightarrow> (ptr \<Rightarrow> openzl_compressor_t option) \<Rightarrow> jlong \<Rightarrow> jbyte list \<Rightarrow> jint \<Rightarrow> jint
     \<Rightarrow> jbyte list \<Rightarrow> jint \<Rightarrow> jint \<Rightarrow> (jint \<times> jbyte list) outcome \<times> event list" where
  "compressSerialToBuffer w heap compressor_ptr src src_off src_len dest dest_off max_dest_len =
    (if compressor_ptr = 0 then
       (Ret (- 1, dest), throw_openzl_exception w ''[Error OpenZL JNI] Invalid compressor'')
     else
     let s = jvm_GetArrayElements w Src;
         d = jvm_GetArrayElements w Dest;
         t1 = (if s then [Pin Src] else []) @ (if d then [Pin Dest] else []) in
     if \<not> s \<or> \<not> d then
       (Ret (- 1, dest), t1 @ (if s then [Unpin Src JNI_ABORT] else [])
          @ (if d then [Unpin Dest JNI_ABORT] else []) @ throw_out_of_memory w)
     else
     if region src src_off src_len = None then (UB, t1)
     else
     let input = the (region src src_off src_len) in
     if ZL_TypedRef_createSerial w input = 0 then
       (Ret (- 1, dest), t1 @ [Unpin Src JNI_ABORT, Unpin Dest JNI_ABORT]
          @ throw_openzl_exception w ''[Error OpenZL JNI] Failed to create typed reference'')
     else
     let t2 = t1 @ [Alloc TypedRef] in
     if heap compressor_ptr = None then (UB, t2)
     else
     let h = the (heap compressor_ptr);
         (compress_report, written) =
           ZL_CCtx_compressTypedRef w (ctx h) (scast max_dest_len) (Serial input);
         t3 = t2 @ [Native CCtx_compressTypedRef] in
     if write_at dest dest_off written = None then (UB, t3)
     else
     let dest' = the (write_at dest dest_off written);
         t4 = t3 @ [Release TypedRef, Unpin Src JNI_ABORT, Unpin Dest Commit] in
     if ZL_isError compress_report then
       (Ret (- 1, dest'),
        t4 @ throw_openzl_exception w (ZL_ErrorCode_toString w (ZL_errorCode compress_report)))
     else
     let compressed_size = ZL_validResult compress_report in
     (Ret (ucast compressed_size, dest'), t4))"

text \<open>
  The four numeric compressors are one text in the C file, up to the element type (and one
  message): \<open>compressNumeric\<close> is that text, with the element type as its first argument.
  A numeric managed array is the list of its elements, each given by its bytes.
\<close>

definition invalid_compressor_message :: "elem_kind \<Rightarrow> string" where
  "invalid_compressor_message k =
     (if k = JLong then ''[Error OpenZL JNI]  Invalid compressor''
      else ''[Error OpenZL JNI] Invalid compressor'')"

definition compressNumeric ::
  "elem_kind \<Rightarrow> world \<Rightarrow> (ptr \<Rightarrow> openzl_compressor_t option) \<Rightarrow> jlong \<Rightarrow> jbyte list list
     \<Rightarrow> jbyte list option outcome \<times> event list" where
  "compressNumeric k w heap compressor_ptr data =
    (if compressor_ptr = 0 then
       (Ret None, throw_openzl_exception w (invalid_compressor_message k))
     else
     let array_len = (of_nat (length data) :: jsize) in
     if \<not> jvm_GetArrayElements w Src then (Ret None, throw_out_of_memory w)
     else
     let input_size = (scast array_len :: size_t) * of_nat (elem_size k);
         max_compressed_size = ZL_compressBound w input_size;
         t1 = [Pin Src] in
     if malloc w (For_scratch max_compressed_size) = 0 then
       (Ret None, t1 @ [Unpin Src JNI_ABORT] @ throw_out_of_memory w)
     else
     let t2 = t1 @ [Alloc Scratch] in
     if ZL_TypedRef_createNumeric w (elem_size k) data = 0 then
       (Ret None, t2 @ [Unpin Src JNI_ABORT, Release Scratch]
          @ throw_openzl_exception w
              ''[Error OpenZL JNI] Failed to create typed reference for numeric data'')
     else
     let t3 = t2 @ [Alloc TypedRef] in
     if heap compressor_ptr = None then (UB, t3)
     else
     let h = the (heap compressor_ptr);
         (compress_report, written) =
           ZL_CCtx_compressTypedRef w (ctx h) max_compressed_size
             (Numeric (elem_size k) (length data) data);
         t4 = t3 @ [Native CCtx_compressTypedRef, Release TypedRef, Unpin Src JNI_ABORT] in
     if ZL_isError compress_report then
       (Ret None, t4 @ [Release Scratch] @ throw_openzl_report_error w compress_report)
     else
     let compressed_size = ZL_validResult compress_report;
         result = NewArray w JByte (ucast compressed_size) in
     if result = None then (Ret None, t4 @ [Release Scratch] @ throw_out_of_memory w)
     else
     let copied = copy_from (unat max_compressed_size) written (the result) in
     if copied = None then (UB, t4)
     else (Ret copied, t4 @ [Release Scratch]))"

definition compressNumericInts where "compressNumericInts = compressNumeric JInt"

definition compressNumericLongs where "compressNumericLongs = compressNumeric JLong"

definition compressNumericFloats where "compressNumericFloats = compressNumeric JFloat"

definition compressNumericDoubles where "compressNumericDoubles = compressNumeric JDouble"

subsection \<open>Decompression\<close>

text \<open>
  \<open>decompressSerial\<close> and \<open>decompressSerialToBuffer\<close> test the handle against 0 and never
  read the record behind it: they call the library's context-free \<open>ZL_decompress\<close>.
\<close>

definition decompressSerial ::
  "world \<Rightarrow> jlong \<Rightarrow> jbyte list \<Rightarrow> jint \<Rightarrow> jint \<Rightarrow> jbyte list option outcome \<times> event list" where
  "decompressSerial w decompressor_ptr src src_off src_len =
    (if decompressor_ptr = 0 then
       (Ret None, throw_openzl_exception w ''[Error OpenZL JNI] Invalid decompressor'')
     else if \<not> jvm_GetArrayElements w Src then (Ret None, throw_out_of_memory w)
     else
     let t1 = [Pin Src] in
     if region src src_off src_len = None then (UB, t1)
     else
     let input = the (region src src_off src_len);
         size_report = ZL_getDecompressedSize w input;
         t2 = t1 @ [Native getDecompressedSize] in
     if ZL_isError size_report then
       (Ret None, t2 @ [Unpin Src JNI_ABORT] @ throw_openzl_report_error w size_report)
     else
     let decompressed_size = ZL_validResult size_report in
     if malloc w (For_scratch decompressed_size) = 0 then
       (Ret None, t2 @ [Unpin Src JNI_ABORT] @ throw_out_of_memory w)
     else
     let (decompress_report, written) = ZL_decompress w decompressed_size input;
         t3 = t2 @ [Alloc Scratch, Native decompress, Unpin Src JNI_ABORT] in
     if ZL_isError decompress_report then
       (Ret None, t3 @ [Release Scratch] @ throw_openzl_report_error w decompress_report)
     else
     let result_size = ZL_validResult decompress_report;
         result = NewArray w JByte (ucast result_size) in
     if result = None then (Ret None, t3 @ [Release Scratch] @ throw_out_of_memory w)
     else
     let copied = copy_from (unat decompressed_size) written (the result) in
     if copied = None then (UB, t3)
     else (Ret copied, t3 @ [Release Scratch]))"

definition decompressSerialToBuffer ::
  "world \<Rightarrow> jlong \<Rightarrow> jbyte list \<Rightarrow> jint \<Rightarrow> jint \<Rightarrow> jbyte list \<Rightarrow> jint \<Rightarrow> jint
     \<Rightarrow> (jint \<times> jbyte list) outcome \<times> event list" where
  "decompressSerialToBuffer w decompressor_ptr src src_off src_len dest dest_off max_dest_len =
    (if decompressor_ptr = 0 then
       (Ret (- 1, dest), throw_openzl_exception w ''[Error OpenZL JNI] Invalid decompressor'')
     else if \<not> jvm_GetArrayElements w Src then (Ret (- 1, dest), throw_out_of_memory w)
     else
     let t1 = [Pin Src] in
     if \<not> jvm_GetArrayElements w Dest then
       (Ret (- 1, dest), t1 @ [Unpin Src JNI_ABORT] @ throw_out_of_memory w)
     else
     let t2 = t1 @ [Pin Dest] in
     if region src src_off src_len = None then (UB, t2)
     else
     let input = the (region src src_off src_len);
         (decompress_report, written) = ZL_decompress w (scast max_dest_len) input;
         t3 = t2 @ [Native decompress] in
     if write_at dest dest_off written = None then (UB, t3)
     else
     let dest' = the (write_at dest dest_off written);
         t4 = t3 @ [Unpin Src JNI_ABORT, Unpin Dest Commit] in
     if ZL_isError decompress_report then
       (Ret (- 1, dest'),
        t4 @ throw_openzl_exception w (ZL_ErrorCode_toString w (ZL_errorCode decompress_report)))
     else
     let decompressed_size = ZL_validResult decompress_report in
     (Ret (ucast decompressed_size, dest'), t4))"

text \<open>
  The four numeric decompressors are one text up to the element type. The result array has
  \<open>(jsize) outputInfo.numElts\<close> elements, and \<open>Set<Type>ArrayRegion\<close> reads that many
  elements of the called variant's width from the scratch buffer, whose size is the
  one \<open>ZL_getDecompressedSize\<close> reported.
\<close>

definition decompressNumeric ::
  "elem_kind \<Rightarrow> world \<Rightarrow> (ptr \<Rightarrow> openzl_decompressor_t option) \<Rightarrow> jlong \<Rightarrow> jbyte list
     \<Rightarrow> jbyte list list option outcome \<times> event list" where
  "decompressNumeric k w heap decompressor_ptr src =
    (if decompressor_ptr = 0 then
       (Ret None, throw_openzl_exception w ''[Error OpenZL JNI] Invalid decompressor'')
     else if \<not> jvm_GetArrayElements w Src then (Ret None, throw_out_of_memory w)
     else
     let size_report = ZL_getDecompressedSize w src;
         t1 = [Pin Src, Native getDecompressedSize] in
     if ZL_isError size_report then
       (Ret None, t1 @ [Unpin Src JNI_ABORT]
          @ throw_openzl_exception w (ZL_ErrorCode_toString w (ZL_errorCode size_report)))
     else
     let decompressed_size = ZL_validResult size_report in
     if malloc w (For_scratch decompressed_size) = 0 then
       (Ret None, t1 @ [Unpin Src JNI_ABORT] @ throw_out_of_memory w)
     else
     let t2 = t1 @ [Alloc Scratch] in
     if heap decompressor_ptr = None then (UB, t2)
     else
     let h = the (heap decompressor_ptr);
         (decompress_report, outputInfo, written) =
           ZL_DCtx_decompressTyped w (dctx h) decompressed_size src;
         t3 = t2 @ [Native DCtx_decompressTyped, Unpin Src JNI_ABORT] in
     if ZL_isError decompress_report then
       (Ret None, t3 @ [Release Scratch]
          @ throw_openzl_exception w (ZL_ErrorCode_toString w (ZL_errorCode decompress_report)))
     else
     let array_len = (ucast (numElts outputInfo) :: jsize);
         result = NewArray w k array_len in
     if result = None then (Ret None, t3 @ [Release Scratch] @ throw_out_of_memory w)
     else
     let copied = copy_from (unat decompressed_size) written (the result * elem_size k) in
     if copied = None then (UB, t3)
     else (Ret (Some (elements (elem_size k) (the result) (the copied))),
           t3 @ [Release Scratch]))"

definition decompressNumericInts where "decompressNumericInts = decompressNumeric JInt"

definition decompressNumericLongs where "decompressNumericLongs = decompressNumeric JLong"

definition decompressNumericFloats where "decompressNumericFloats = decompressNumeric JFloat"

definition decompressNumericDoubles where "decompressNumericDoubles = decompressNumeric JDouble"

subsection \<open>Utilities\<close>

definition compressBound :: "world \<Rightarrow> jint \<Rightarrow> jint" where
  "compressBound w src_len = ucast (ZL_compressBound w (scast src_len))"

text \<open>The two \<open>switch\<close> statements of \<open>getCompressionInfo\<close> on the output type.\<close>

definition data_type_str :: "jint \<Rightarrow> string" where
  "data_type_str output_type =
     (if output_type = 0 then ''SERIAL''
      else if output_type = 2 then ''NUMERIC''
      else if output_type = 1 then ''STRUCT''
      else if output_type = 3 then ''STRING''
      else ''UNKNOWN'')"

definition info_graph_id :: "jint \<Rightarrow> jint" where
  "info_graph_id output_type =
     (if output_type = 2 then 1
      else if output_type = 0 then 0
      else 0)"

text \<open>
  \<open>getCompressionInfo\<close> receives a reference that may be \<open>null\<close> (\<open>None\<close>). The graph
  object is whatever the Java method \<open>CompressionGraph.fromId\<close> returns for the identifier
  the binding computes. The result of \<open>NewObject\<close> is returned unchecked.
\<close>

definition getCompressionInfo ::
  "world \<Rightarrow> jbyte list option \<Rightarrow> CompressionInfo option \<times> event list" where
  "getCompressionInfo w compressed_data =
    (if compressed_data = None then
       (None, throw_exception w IllegalArgumentException
                ''[Error OpenZL JNI] Compressed data cannot be null'')
     else
     let compressed_bytes = the compressed_data;
         compressed_len = (of_nat (length compressed_bytes) :: jsize) in
     if sint compressed_len \<le> 0 then
       (None, throw_openzl_exception w ''[Error OpenZL JNI] Compressed data is empty'')
     else if \<not> jvm_GetArrayElements w Src then (None, throw_out_of_memory w)
     else
     let compressed_size_result = ZL_getCompressedSize w compressed_bytes;
         t1 = [Pin Src, Native getCompressedSize] in
     if ZL_isError compressed_size_result then
       (None, t1 @ [Unpin Src JNI_ABORT]
          @ throw_openzl_exception w ''[Error OpenZL JNI] Failed to get compressed size'')
     else if ZL_FrameInfo_create w compressed_bytes = 0 then
       (None, t1 @ [Unpin Src JNI_ABORT]
          @ throw_openzl_exception w ''[Error OpenZL JNI] Failed to create frame info'')
     else
     let decompressed_size_result = ZL_FrameInfo_getDecompressedSize w compressed_bytes 0;
         t2 = t1 @ [Alloc FrameInfo, Native FrameInfo_getDecompressedSize] in
     if ZL_isError decompressed_size_result then
       (None, t2 @ [Release FrameInfo, Unpin Src JNI_ABORT]
          @ throw_openzl_exception w ''[Error OpenZL JNI] Failed to get decompressed size'')
     else
     let output_type_result = ZL_FrameInfo_getOutputType w compressed_bytes 0;
         t3 = t2 @ [Native FrameInfo_getOutputType] in
     if ZL_isError output_type_result then
       (None, t3 @ [Release FrameInfo, Unpin Src JNI_ABORT]
          @ throw_openzl_exception w ''[Error OpenZL JNI] Failed to get output type'')
     else
     let compressed_size = ZL_validResult compressed_size_result;
         decompressed_size = ZL_validResult decompressed_size_result;
         output_type = (ucast (ZL_validResult output_type_result) :: jint);
         t4 = t3 @ [Release FrameInfo, Unpin Src JNI_ABORT, FindClass CompressionInfo_class] in
     if \<not> jvm_FindClass w CompressionInfo_class then
       (None, t4 @ throw_openzl_exception w
                     ''[Error OpenZL JNI] Failed to find CompressionInfo class'')
     else if \<not> jvm_GetMethodID w CompressionInfo_class ''<init>'' then
       (None, t4 @ throw_openzl_exception w
                     ''[Error OpenZL JNI] Failed to find CompressionInfo constructor'')
     else
     let t5 = t4 @ [FindClass CompressionGraph_class] in
     if \<not> jvm_FindClass w CompressionGraph_class then
       (None, t5 @ throw_openzl_exception w
                     ''[Error OpenZL JNI] Failed to find CompressionGraph class'')
     else if \<not> jvm_GetStaticMethodID w CompressionGraph_class ''fromId'' then
       (None, t5 @ throw_openzl_exception w
                     ''[Error OpenZL JNI] Failed to find CompressionGraph.fromId method'')
     else
     let compression_graph = jvm_CompressionGraph_fromId w (info_graph_id output_type) in
     if compression_graph = None then
       (None, t5 @ throw_openzl_exception w
                     ''[Error OpenZL JNI] Failed to create CompressionGraph object'')
     else if \<not> jvm_NewStringUTF w (data_type_str output_type) then
       (None, t5 @ throw_out_of_memory w)
     else if \<not> jvm_NewObject w CompressionInfo_class then (None, t5)
     else
       (Some \<lparr>info_decompressed_size = decompressed_size,
              info_compressed_size = compressed_size,
              info_graph = the compression_graph,
              info_data_type = data_type_str output_type\<rparr>, t5))"

subsection \<open>Reading a list of effects\<close>

text \<open>The native resources still held after a run that started holding \<open>held\<close>.\<close>

fun live_after :: "resource list \<Rightarrow> event list \<Rightarrow> resource list" where
  "live_after held [] = held"
| "live_after held (Alloc r # t) = live_after (r # held) t"
| "live_after held (Release r # t) = live_after (remove1 r held) t"
| "live_after held (e # t) = live_after held t"

text \<open>Nothing is held at any moment the run looks an exception class up or throws.\<close>

fun clean_when_thrown :: "resource list \<Rightarrow> event list \<Rightarrow> bool" where
  "clean_when_thrown held [] = True"
| "clean_when_thrown held (Alloc r # t) = clean_when_thrown (r # held) t"
| "clean_when_thrown held (Release r # t) = clean_when_thrown (remove1 r held) t"
| "clean_when_thrown held (FindClass c # t) = (held = [] \<and> clean_when_thrown held t)"
| "clean_when_thrown held (ThrowNew c m # t) = (held = [] \<and> clean_when_thrown held t)"
| "clean_when_thrown held (e # t) = clean_when_thrown held t"

text \<open>
  Every pin is released exactly once: no array is pinned while pinned, none is released
  while not pinned, and none is pinned at the end.
\<close>

fun pins_released_once :: "jarray list \<Rightarrow> event list \<Rightarrow> bool" where
  "pins_released_once held [] = (held = [])"
| "pins_released_once held (Pin a # t) =
     (\<not> List.member held a \<and> pins_released_once (a # held) t)"
| "pins_released_once held (Unpin a m # t) =
     (List.member held a \<and> pins_released_once (remove1 a held) t)"
| "pins_released_once held (e # t) = pins_released_once held t"

text \<open>The modes with which a run released an array.\<close>

fun release_modes :: "jarray \<Rightarrow> event list \<Rightarrow> release_mode list" where
  "release_modes a [] = []"
| "release_modes a (Unpin b m # t) =
     (if a = b then m # release_modes a t else release_modes a t)"
| "release_modes a (e # t) = release_modes a t"

text \<open>Whether the run reached the library call that compresses or decompresses.\<close>

fun reached_codec :: "event list \<Rightarrow> bool" where
  "reached_codec [] = False"
| "reached_codec (Native CCtx_compressTypedRef # t) = True"
| "reached_codec (Native decompress # t) = True"
| "reached_codec (Native DCtx_decompressTyped # t) = True"
| "reached_codec (e # t) = reached_codec t"

subsection \<open>Sample worlds\<close>

text \<open>
  A world in which nothing fails. Its library stores data verbatim: a frame is the input
  bytes, the first byte of a frame is reported as its output type, and the typed
  decompressor reports every frame as elements of four bytes.
\<close>

definition store_codec :: "size_t \<Rightarrow> jbyte list \<Rightarrow> ZL_Report \<times> jbyte list" where
  "store_codec cap bs =
     (if length bs \<le> unat cap then (ZL_value (of_nat (length bs)), bs) else (ZL_error 1, []))"

definition store_world :: world where
  "store_world = \<lparr>
     jvm_FindClass = (\<lambda>c. True),
     jvm_GetArrayElements = (\<lambda>a. True),
     jvm_NewArray = (\<lambda>k n. True),
     jvm_GetMethodID = (\<lambda>c m. True),
     jvm_GetStaticMethodID = (\<lambda>c m. True),
     jvm_CompressionGraph_fromId = (\<lambda>i. Some (unat i)),
     jvm_NewStringUTF = (\<lambda>s. True),
     jvm_NewObject = (\<lambda>c. True),
     malloc = (\<lambda>r. 4096),
     ZL_CCtx_create = 8192,
     ZL_Compressor_create = 12288,
     ZL_DCtx_create = 16384,
     ZL_CCtx_setParameter = (\<lambda>c p v. ZL_value 0),
     ZL_Compressor_selectStartingGraphID = (\<lambda>c g. ZL_value 0),
     ZL_CCtx_refCompressor = (\<lambda>c d. ZL_value 0),
     ZL_ErrorCode_toString = (\<lambda>c. ''Generic error''),
     ZL_compressBound = (\<lambda>n. n + 16),
     ZL_TypedRef_createSerial = (\<lambda>bs. 20480),
     ZL_TypedRef_createNumeric = (\<lambda>width es. 20480),
     ZL_CCtx_compressTypedRef =
       (\<lambda>c cap r. case r of Serial bs \<Rightarrow> store_codec cap bs
                  | Numeric width n es \<Rightarrow> store_codec cap (concat es)),
     ZL_getDecompressedSize = (\<lambda>bs. ZL_value (of_nat (length bs))),
     ZL_decompress = store_codec,
     ZL_DCtx_decompressTyped =
       (\<lambda>c cap bs. (fst (store_codec cap bs),
                    \<lparr>otype = 4, fixedWidth = 4,
                     decompressedByteSize = of_nat (length bs),
                     numElts = of_nat (length bs div 4)\<rparr>,
                    snd (store_codec cap bs))),
     ZL_getCompressedSize = (\<lambda>bs. ZL_value (of_nat (length bs))),
     ZL_FrameInfo_create = (\<lambda>bs. 24576),
     ZL_FrameInfo_getDecompressedSize = (\<lambda>bs i. ZL_value (of_nat (length bs))),
     ZL_FrameInfo_getOutputType =
       (\<lambda>bs i. case bs of [] \<Rightarrow> ZL_value 0 | b # rest \<Rightarrow> ZL_value (ucast b))
   \<rparr>"

text \<open>The same world, except that binding the descriptor into the context fails.\<close>

definition refusing_world :: world where
  "refusing_world = store_world\<lparr>ZL_CCtx_refCompressor := (\<lambda>c d. ZL_error 7)\<rparr>"

text \<open>A world in which typed references cannot be created.\<close>

definition typed_ref_failing_world :: world where
  "typed_ref_failing_world = store_world\<lparr>ZL_TypedRef_createSerial := (\<lambda>bs. 0)\<rparr>"

text \<open>A world whose virtual machine cannot allocate any array.\<close>

definition array_exhausted_world :: world where
  "array_exhausted_world = store_world\<lparr>jvm_NewArray := (\<lambda>k n. False)\<rparr>"

text \<open>Native memory that holds one compressor record and one decompressor record.\<close>

definition sample_compressors :: "ptr \<Rightarrow> openzl_compressor_t option" where
  "sample_compressors p =
     (if p = 4096 then Some \<lparr>ctx = 8192, compressor = 12288, graph_id = ZL_GRAPH_STORE\<rparr>
      else None)"

definition sample_decompressors :: "ptr \<Rightarrow> openzl_decompressor_t option" where
  "sample_decompressors p = (if p = 4096 then Some \<lparr>dctx = 16384\<rparr> else None)"



subsection \<open>A compressor opened on a pipeline\<close>

text \<open>
  What opening a compressor on the pipeline \<open>g\<close> amounts to: the handle is the address of
  a record that holds a context, a descriptor and \<open>g\<close>; both parameters were set on the
  context, \<open>g\<close> was selected as the starting graph of the descriptor, and the descriptor
  was bound into the context.
\<close>

definition opened_on :: "world \<Rightarrow> ZL_GraphID \<Rightarrow> jlong \<times> openzl_compressor_t option \<times> event list" where
  "opened_on w g =
     (malloc w For_compressor_record,
      Some \<lparr>ctx = ZL_CCtx_create w, compressor = ZL_Compressor_create w, graph_id = g\<rparr>,
      [Alloc Handle_record, Alloc CCtx, Alloc Compressor,
       Native (CCtx_setParameter ZL_CParam_formatVersion ZL_MAX_FORMAT_VERSION),
       Native (CCtx_setParameter ZL_CParam_compressionLevel ZL_COMPRESSIONLEVEL_DEFAULT),
       Native (Compressor_selectStartingGraphID g),
       Native CCtx_refCompressor])"

subsection \<open>The twelve compress and decompress operations as one\<close>

datatype call =
    CompressSerial jlong "jbyte list" jint jint
  | CompressSerialToBuffer jlong "jbyte list" jint jint "jbyte list" jint jint
  | CompressNumericInts jlong "jbyte list list"
  | CompressNumericLongs jlong "jbyte list list"
  | CompressNumericFloats jlong "jbyte list list"
  | CompressNumericDoubles jlong "jbyte list list"
  | DecompressSerial jlong "jbyte list" jint jint
  | DecompressSerialToBuffer jlong "jbyte list" jint jint "jbyte list" jint jint
  | DecompressNumericInts jlong "jbyte list"
  | DecompressNumericLongs jlong "jbyte list"
  | DecompressNumericFloats jlong "jbyte list"
  | DecompressNumericDoubles jlong "jbyte list"

text \<open>Whether the call's behaviour is defined, and its effects.\<close>

fun perform ::
  "world \<Rightarrow> (ptr \<Rightarrow> openzl_compressor_t option) \<Rightarrow> (ptr \<Rightarrow> openzl_decompressor_t option)
     \<Rightarrow> call \<Rightarrow> bool \<times> event list" where
  "perform w ch dh (CompressSerial p src off len) =
     (fst (compressSerial w ch p src off len) \<noteq> UB, snd (compressSerial w ch p src off len))"
| "perform w ch dh (CompressSerialToBuffer p src off len dest dest_off max_len) =
     (fst (compressSerialToBuffer w ch p src off len dest dest_off max_len) \<noteq> UB,
      snd (compressSerialToBuffer w ch p src off len dest dest_off max_len))"
| "perform w ch dh (CompressNumericInts p data) =
     (fst (compressNumericInts w ch p data) \<noteq> UB, snd (compressNumericInts w ch p data))"
| "perform w ch dh (CompressNumericLongs p data) =
     (fst (compressNumericLongs w ch p data) \<noteq> UB, snd (compressNumericLongs w ch p data))"
| "perform w ch dh (CompressNumericFloats p data) =
     (fst (compressNumericFloats w ch p data) \<noteq> UB, snd (compressNumericFloats w ch p data))"
| "perform w ch dh (CompressNumericDoubles p data) =
     (fst (compressNumericDoubles w ch p data) \<noteq> UB,
      snd (compressNumericDoubles w ch p data))"
| "perform w ch dh (DecompressSerial p src off len) =
     (fst (decompressSerial w p src off len) \<noteq> UB, snd (decompressSerial w p src off len))"
| "perform w ch dh (DecompressSerialToBuffer p src off len dest dest_off max_len) =
     (fst (decompressSerialToBuffer w p src off len dest dest_off max_len) \<noteq> UB,
      snd (decompressSerialToBuffer w p src off len dest dest_off max_len))"
| "perform w ch dh (DecompressNumericInts p src) =
     (fst (decompressNumericInts w dh p src) \<noteq> UB, snd (decompressNumericInts w dh p src))"
| "perform w ch dh (DecompressNumericLongs p src) =
     (fst (decompressNumericLongs w dh p src) \<noteq> UB, snd (decompressNumericLongs w dh p src))"
| "perform w ch dh (DecompressNumericFloats p src) =
     (fst (decompressNumericFloats w dh p src) \<noteq> UB, snd (decompressNumericFloats w dh p src))"
| "perform w ch dh (DecompressNumericDoubles p src) =
     (fst (decompressNumericDoubles w dh p src) \<noteq> UB,
      snd (decompressNumericDoubles w dh p src))"

text \<open>
  The release discipline in the words of the specification: every pin released exactly
  once, sources with \<open>JNI_ABORT\<close>, destinations with commit.
\<close>

definition released_as_claimed :: "event list \<Rightarrow> bool" where
  "released_as_claimed tr =
     (pins_released_once [] tr
      \<and> list_all (\<lambda>m. m = JNI_ABORT) (release_modes Src tr)
      \<and> list_all (\<lambda>m. m = Commit) (release_modes Dest tr))"

text \<open>
  The release discipline of the C code: the destination is committed on the paths that
  reached the library's compress or decompress call, and discarded on the paths that
  failed before it.
\<close>

definition released_as_written :: "event list \<Rightarrow> bool" where
  "released_as_written tr =
     (pins_released_once [] tr
      \<and> list_all (\<lambda>m. m = JNI_ABORT) (release_modes Src tr)
      \<and> list_all (\<lambda>m. m = (if reached_codec tr then Commit else JNI_ABORT))
           (release_modes Dest tr))"

subsection \<open>What the handle check leaves behind\<close>

text \<open>The effects of a decompress operation that rejected its handle.\<close>

definition invalid_decompressor :: "event list" where
  "invalid_decompressor =
     [FindClass OpenZLException,
      ThrowNew OpenZLException ''[Error OpenZL JNI] Invalid decompressor'']"

text \<open>
  The effects of an operation that went past its handle check: it pinned its source
  array first or, when the array could not be pinned, only threw \<open>OutOfMemoryError\<close>.
\<close>

definition passes_handle_check :: "world \<Rightarrow> event list \<Rightarrow> bool" where
  "passes_handle_check w tr =
     (if jvm_GetArrayElements w Src
      then (case tr of [] \<Rightarrow> False | e # rest \<Rightarrow> e = Pin Src)
      else tr = throw_out_of_memory w)"

section \<open>Properties\<close>

lemmas throw_defs = throw_openzl_report_error_def throw_openzl_exception_def
  throw_out_of_memory_def throw_exception_def

subsection \<open>Sizes that fit a Java array\<close>

lemma sint_of_nat_small: "n < 2 ^ 31 \<Longrightarrow> sint (of_nat n :: 32 word) = int n"
  by (simp add: signed_of_nat signed_take_bit_int_eq_self)



lemma sint_ucast_small:
  fixes n :: "64 word"
  assumes "unat n < 2 ^ 31"
  shows "sint (ucast n :: 32 word) = int (unat n)"
proof -
  have "int (unat n) < int (2 ^ 31)"
    using assms by (rule iffD2 [OF of_nat_less_iff])
  then have "uint n < 2 ^ 31"
    by simp
  moreover have "- (2 ^ 31) \<le> uint n"
    by (rule order_trans [of _ 0]) simp_all
  ultimately have "signed_take_bit 31 (uint n) = uint n"
    by (rule signed_take_bit_int_eq_self [rotated])
  then show ?thesis
    by (simp add: signed_ucast_eq)
qed

lemma ucast_of_nat_small: "n < 2 ^ 31 \<Longrightarrow> (ucast (of_nat n :: 64 word) :: 32 word) = of_nat n"
  by (simp add: ucast_eq unsigned_of_nat take_bit_nat_eq_self)

lemma NewArray_small:
  fixes n :: "64 word"
  assumes "unat n < 2 ^ 31" "jvm_NewArray w k (unat n)"
  shows "NewArray w k (ucast n) = Some (unat n)"
  using assms by (simp add: NewArray_def sint_ucast_small)

subsection \<open>Opening a compressor\<close>

text \<open>
  Claim C1. Whatever the graph code: when a step of \<open>createCompressor\<close> fails after the
  compression context exists (the descriptor cannot be created, one of the two parameters
  cannot be set, the starting graph cannot be selected, or the descriptor cannot be bound
  into the context), the call returns 0. And whenever the call returns 0, no handle record
  is left, every native resource the call created has been released by the end, and
  nothing is held any more at the moment the exception is looked up and thrown. A call
  that returns a handle holds exactly the descriptor, the context and the record.
\<close>

theorem createCompressor_failure_releases_everything:
  assumes "createCompressor w graph_code = (h, r, tr)"
  shows "((ZL_CCtx_create w \<noteq> 0 \<and>
           (ZL_Compressor_create w = 0
            \<or> ZL_isError (ZL_CCtx_setParameter w (ZL_CCtx_create w)
                           ZL_CParam_formatVersion ZL_MAX_FORMAT_VERSION)
            \<or> ZL_isError (ZL_CCtx_setParameter w (ZL_CCtx_create w)
                           ZL_CParam_compressionLevel ZL_COMPRESSIONLEVEL_DEFAULT)
            \<or> ZL_isError (ZL_Compressor_selectStartingGraphID w (ZL_Compressor_create w)
                           (selected_graph graph_code))
            \<or> ZL_isError (ZL_CCtx_refCompressor w (ZL_CCtx_create w)
                           (ZL_Compressor_create w))))
          \<longrightarrow> h = 0)
       \<and> (h = 0 \<longrightarrow> r = None \<and> live_after [] tr = [] \<and> clean_when_thrown [] tr)
       \<and> (h \<noteq> 0 \<longrightarrow> r \<noteq> None \<and> live_after [] tr = [Compressor, CCtx, Handle_record])"
  using assms
  by (auto simp: createCompressor_def Let_def throw_defs split: if_splits)

theorem createCompressor_failure_releases_everything_witness:
  "createCompressor refusing_world 3 =
     (0, None,
      [Alloc Handle_record, Alloc CCtx, Alloc Compressor,
       Native (CCtx_setParameter ZL_CParam_formatVersion ZL_MAX_FORMAT_VERSION),
       Native (CCtx_setParameter ZL_CParam_compressionLevel ZL_COMPRESSIONLEVEL_DEFAULT),
       Native (Compressor_selectStartingGraphID ZL_GRAPH_STORE),
       Native CCtx_refCompressor,
       Release Compressor, Release CCtx, Release Handle_record,
       FindClass OpenZLException, ThrowNew OpenZLException ''Generic error''])
   \<and> ZL_CCtx_create refusing_world \<noteq> 0
   \<and> ZL_isError (ZL_CCtx_refCompressor refusing_world (ZL_CCtx_create refusing_world)
                   (ZL_Compressor_create refusing_world))
   \<and> live_after []
        [Alloc Handle_record, Alloc CCtx, Alloc Compressor,
         Native (CCtx_setParameter ZL_CParam_formatVersion ZL_MAX_FORMAT_VERSION),
         Native (CCtx_setParameter ZL_CParam_compressionLevel ZL_COMPRESSIONLEVEL_DEFAULT),
         Native (Compressor_selectStartingGraphID ZL_GRAPH_STORE),
         Native CCtx_refCompressor,
         Release Compressor, Release CCtx, Release Handle_record,
         FindClass OpenZLException, ThrowNew OpenZLException ''Generic error''] = []
   \<and> createCompressor store_world 3 =
     (4096, Some \<lparr>ctx = 8192, compressor = 12288, graph_id = ZL_GRAPH_STORE\<rparr>,
      [Alloc Handle_record, Alloc CCtx, Alloc Compressor,
       Native (CCtx_setParameter ZL_CParam_formatVersion ZL_MAX_FORMAT_VERSION),
       Native (CCtx_setParameter ZL_CParam_compressionLevel ZL_COMPRESSIONLEVEL_DEFAULT),
       Native (Compressor_selectStartingGraphID ZL_GRAPH_STORE),
       Native CCtx_refCompressor])
   \<and> live_after []
        [Alloc Handle_record, Alloc CCtx, Alloc Compressor,
         Native (CCtx_setParameter ZL_CParam_formatVersion ZL_MAX_FORMAT_VERSION),
         Native (CCtx_setParameter ZL_CParam_compressionLevel ZL_COMPRESSIONLEVEL_DEFAULT),
         Native (Compressor_selectStartingGraphID ZL_GRAPH_STORE),
         Native CCtx_refCompressor] = [Compressor, CCtx, Handle_record]"
proof -
  have run: "createCompressor refusing_world 3 =
     (0, None,
      [Alloc Handle_record, Alloc CCtx, Alloc Compressor,
       Native (CCtx_setParameter ZL_CParam_formatVersion ZL_MAX_FORMAT_VERSION),
       Native (CCtx_setParameter ZL_CParam_compressionLevel ZL_COMPRESSIONLEVEL_DEFAULT),
       Native (Compressor_selectStartingGraphID ZL_GRAPH_STORE),
       Native CCtx_refCompressor,
       Release Compressor, Release CCtx, Release Handle_record,
       FindClass OpenZLException, ThrowNew OpenZLException ''Generic error''])"
    by (simp add: createCompressor_def refusing_world_def store_world_def selected_graph_def
        throw_defs)
  have good: "createCompressor store_world 3 =
     (4096, Some \<lparr>ctx = 8192, compressor = 12288, graph_id = ZL_GRAPH_STORE\<rparr>,
      [Alloc Handle_record, Alloc CCtx, Alloc Compressor,
       Native (CCtx_setParameter ZL_CParam_formatVersion ZL_MAX_FORMAT_VERSION),
       Native (CCtx_setParameter ZL_CParam_compressionLevel ZL_COMPRESSIONLEVEL_DEFAULT),
       Native (Compressor_selectStartingGraphID ZL_GRAPH_STORE),
       Native CCtx_refCompressor])"
    by (simp add: createCompressor_def store_world_def selected_graph_def)
  have "ZL_CCtx_create refusing_world \<noteq> 0"
    and "ZL_isError (ZL_CCtx_refCompressor refusing_world (ZL_CCtx_create refusing_world)
                   (ZL_Compressor_create refusing_world))"
    by (simp_all add: refusing_world_def store_world_def)
  with createCompressor_failure_releases_everything [OF run]
       createCompressor_failure_releases_everything [OF good] run good
  show ?thesis
    by simp
qed

text \<open>
  Claim C3. Whenever its collaborators succeed (the record, the context and the
  descriptor can be created, both parameters can be set, the library accepts the starting
  graph and binds the descriptor), \<open>createCompressor\<close> opens the compressor on the
  pipeline of the graph selection table: ZSTD for the code 0, the generic pipeline for 1
  and for 9, Field-LZ for 2, Store for 3, FSE for 4, Huffman for 5, general entropy for 6,
  bitpacking for 7, constant-value for 8, and ZSTD for every other code. That pipeline is
  the one stored in the handle record and the one selected as the starting graph of the
  descriptor that is bound into the context.
\<close>

theorem createCompressor_selects_by_table:
  assumes alloc: "malloc w For_compressor_record \<noteq> 0"
      and cctx: "ZL_CCtx_create w \<noteq> 0"
      and desc: "ZL_Compressor_create w \<noteq> 0"
      and version: "\<not> ZL_isError (ZL_CCtx_setParameter w (ZL_CCtx_create w)
                        ZL_CParam_formatVersion ZL_MAX_FORMAT_VERSION)"
      and level: "\<not> ZL_isError (ZL_CCtx_setParameter w (ZL_CCtx_create w)
                        ZL_CParam_compressionLevel ZL_COMPRESSIONLEVEL_DEFAULT)"
      and selects: "\<forall>g. \<not> ZL_isError (ZL_Compressor_selectStartingGraphID w
                        (ZL_Compressor_create w) g)"
      and binds: "\<not> ZL_isError (ZL_CCtx_refCompressor w (ZL_CCtx_create w)
                        (ZL_Compressor_create w))"
  shows "(graph_code = 0 \<longrightarrow> createCompressor w graph_code = opened_on w ZL_GRAPH_ZSTD)
    \<and> (graph_code = 1 \<or> graph_code = 9
         \<longrightarrow> createCompressor w graph_code = opened_on w ZL_GRAPH_COMPRESS_GENERIC)
    \<and> (graph_code = 2 \<longrightarrow> createCompressor w graph_code = opened_on w ZL_GRAPH_FIELD_LZ)
    \<and> (graph_code = 3 \<longrightarrow> createCompressor w graph_code = opened_on w ZL_GRAPH_STORE)
    \<and> (graph_code = 4 \<longrightarrow> createCompressor w graph_code = opened_on w ZL_GRAPH_FSE)
    \<and> (graph_code = 5 \<longrightarrow> createCompressor w graph_code = opened_on w ZL_GRAPH_HUFFMAN)
    \<and> (graph_code = 6 \<longrightarrow> createCompressor w graph_code = opened_on w ZL_GRAPH_ENTROPY)
    \<and> (graph_code = 7 \<longrightarrow> createCompressor w graph_code = opened_on w ZL_GRAPH_BITPACK)
    \<and> (graph_code = 8 \<longrightarrow> createCompressor w graph_code = opened_on w ZL_GRAPH_CONSTANT)
    \<and> (graph_code \<notin> {0, 1, 2, 3, 4, 5, 6, 7, 8, 9}
         \<longrightarrow> createCompressor w graph_code = opened_on w ZL_GRAPH_ZSTD)"
  using assms
  by (simp add: createCompressor_def opened_on_def selected_graph_def)

theorem createCompressor_selects_by_table_witness:
  "createCompressor store_world 0 = opened_on store_world ZL_GRAPH_ZSTD
   \<and> createCompressor store_world 1 = opened_on store_world ZL_GRAPH_COMPRESS_GENERIC
   \<and> createCompressor store_world 9 = opened_on store_world ZL_GRAPH_COMPRESS_GENERIC
   \<and> createCompressor store_world 2 = opened_on store_world ZL_GRAPH_FIELD_LZ
   \<and> createCompressor store_world 3 = opened_on store_world ZL_GRAPH_STORE
   \<and> createCompressor store_world 4 = opened_on store_world ZL_GRAPH_FSE
   \<and> createCompressor store_world 5 = opened_on store_world ZL_GRAPH_HUFFMAN
   \<and> createCompressor store_world 6 = opened_on store_world ZL_GRAPH_ENTROPY
   \<and> createCompressor store_world 7 = opened_on store_world ZL_GRAPH_BITPACK
   \<and> createCompressor store_world 8 = opened_on store_world ZL_GRAPH_CONSTANT
   \<and> createCompressor store_world 42 = opened_on store_world ZL_GRAPH_ZSTD
   \<and> createCompressor store_world (- 1) = opened_on store_world ZL_GRAPH_ZSTD
   \<and> opened_on store_world ZL_GRAPH_CONSTANT =
       (4096, Some \<lparr>ctx = 8192, compressor = 12288, graph_id = ZL_GRAPH_CONSTANT\<rparr>,
        [Alloc Handle_record, Alloc CCtx, Alloc Compressor,
         Native (CCtx_setParameter ZL_CParam_formatVersion ZL_MAX_FORMAT_VERSION),
         Native (CCtx_setParameter ZL_CParam_compressionLevel ZL_COMPRESSIONLEVEL_DEFAULT),
         Native (Compressor_selectStartingGraphID ZL_GRAPH_CONSTANT),
         Native CCtx_refCompressor])"
proof -
  have env: "malloc store_world For_compressor_record \<noteq> 0"
    "ZL_CCtx_create store_world \<noteq> 0"
    "ZL_Compressor_create store_world \<noteq> 0"
    "\<not> ZL_isError (ZL_CCtx_setParameter store_world (ZL_CCtx_create store_world)
          ZL_CParam_formatVersion ZL_MAX_FORMAT_VERSION)"
    "\<not> ZL_isError (ZL_CCtx_setParameter store_world (ZL_CCtx_create store_world)
          ZL_CParam_compressionLevel ZL_COMPRESSIONLEVEL_DEFAULT)"
    "\<forall>g. \<not> ZL_isError (ZL_Compressor_selectStartingGraphID store_world
          (ZL_Compressor_create store_world) g)"
    "\<not> ZL_isError (ZL_CCtx_refCompressor store_world (ZL_CCtx_create store_world)
          (ZL_Compressor_create store_world))"
    by (simp_all add: store_world_def)
  note T = createCompressor_selects_by_table [OF env]
  have out: "(42 :: jint) \<notin> {0, 1, 2, 3, 4, 5, 6, 7, 8, 9}"
    "(- 1 :: jint) \<notin> {0, 1, 2, 3, 4, 5, 6, 7, 8, 9}"
    by simp_all
  have lit: "opened_on store_world ZL_GRAPH_CONSTANT =
       (4096, Some \<lparr>ctx = 8192, compressor = 12288, graph_id = ZL_GRAPH_CONSTANT\<rparr>,
        [Alloc Handle_record, Alloc CCtx, Alloc Compressor,
         Native (CCtx_setParameter ZL_CParam_formatVersion ZL_MAX_FORMAT_VERSION),
         Native (CCtx_setParameter ZL_CParam_compressionLevel ZL_COMPRESSIONLEVEL_DEFAULT),
         Native (Compressor_selectStartingGraphID ZL_GRAPH_CONSTANT),
         Native CCtx_refCompressor])"
    by (simp add: opened_on_def store_world_def)
  from T [of 0] T [of 1] T [of 9] T [of 2] T [of 3] T [of 4] T [of 5] T [of 6] T [of 7]
       T [of 8] T [of 42] T [of "- 1"] out lit
  show ?thesis
    by simp
qed

subsection \<open>The handle check\<close>

text \<open>
  Claim C4. In a virtual machine that can resolve the binding's exception class, every
  compress and every decompress operation called with the handle 0 does nothing but throw
  \<open>OpenZLException\<close> with the message "Invalid compressor" (or "Invalid decompressor"):
  it pins no array, allocates nothing and calls no library function. The operations that
  return a new array return \<open>NULL\<close>; the two buffer variants return -1 and leave the
  destination as it was.
\<close>

theorem zero_handle_is_rejected_first:
  assumes "jvm_FindClass w OpenZLException"
  shows "compressSerial w ch 0 src off len =
           (Ret None, [FindClass OpenZLException,
              ThrowNew OpenZLException ''[Error OpenZL JNI] Invalid compressor''])
    \<and> compressSerialToBuffer w ch 0 src off len dest dest_off max_len =
           (Ret (- 1, dest), [FindClass OpenZLException,
              ThrowNew OpenZLException ''[Error OpenZL JNI] Invalid compressor''])
    \<and> compressNumericInts w ch 0 ints =
           (Ret None, [FindClass OpenZLException,
              ThrowNew OpenZLException ''[Error OpenZL JNI] Invalid compressor''])
    \<and> compressNumericLongs w ch 0 longs =
           (Ret None, [FindClass OpenZLException,
              ThrowNew OpenZLException ''[Error OpenZL JNI]  Invalid compressor''])
    \<and> compressNumericFloats w ch 0 floats =
           (Ret None, [FindClass OpenZLException,
              ThrowNew OpenZLException ''[Error OpenZL JNI] Invalid compressor''])
    \<and> compressNumericDoubles w ch 0 doubles =
           (Ret None, [FindClass OpenZLException,
              ThrowNew OpenZLException ''[Error OpenZL JNI] Invalid compressor''])
    \<and> decompressSerial w 0 src off len =
           (Ret None, [FindClass OpenZLException,
              ThrowNew OpenZLException ''[Error OpenZL JNI] Invalid decompressor''])
    \<and> decompressSerialToBuffer w 0 src off len dest dest_off max_len =
           (Ret (- 1, dest), [FindClass OpenZLException,
              ThrowNew OpenZLException ''[Error OpenZL JNI] Invalid decompressor''])
    \<and> decompressNumericInts w dh 0 src =
           (Ret None, [FindClass OpenZLException,
              ThrowNew OpenZLException ''[Error OpenZL JNI] Invalid decompressor''])
    \<and> decompressNumericLongs w dh 0 src =
           (Ret None, [FindClass OpenZLException,
              ThrowNew OpenZLException ''[Error OpenZL JNI] Invalid decompressor''])
    \<and> decompressNumericFloats w dh 0 src =
           (Ret None, [FindClass OpenZLException,
              ThrowNew OpenZLException ''[Error OpenZL JNI] Invalid decompressor''])
    \<and> decompressNumericDoubles w dh 0 src =
           (Ret None, [FindClass OpenZLException,
              ThrowNew OpenZLException ''[Error OpenZL JNI] Invalid decompressor''])"
  using assms
  by (simp add: compressSerial_def compressSerialToBuffer_def compressNumeric_def
      compressNumericInts_def compressNumericLongs_def compressNumericFloats_def
      compressNumericDoubles_def decompressSerial_def decompressSerialToBuffer_def
      decompressNumeric_def decompressNumericInts_def decompressNumericLongs_def
      decompressNumericFloats_def decompressNumericDoubles_def
      invalid_compressor_message_def throw_defs)

theorem zero_handle_is_rejected_first_witness:
  "jvm_FindClass store_world OpenZLException
   \<and> compressSerial store_world (\<lambda>p. None) 0 [1, 2, 3] 0 3 =
       (Ret None, [FindClass OpenZLException,
          ThrowNew OpenZLException ''[Error OpenZL JNI] Invalid compressor''])
   \<and> decompressSerialToBuffer store_world 0 [1, 2, 3] 0 3 [0, 0, 0, 0] 0 4 =
       (Ret (- 1, [0, 0, 0, 0]), [FindClass OpenZLException,
          ThrowNew OpenZLException ''[Error OpenZL JNI] Invalid decompressor''])"
proof -
  have cls: "jvm_FindClass store_world OpenZLException"
    by (simp add: store_world_def)
  from zero_handle_is_rejected_first
         [OF cls, of "\<lambda>p. None" "[1, 2, 3]" 0 3 "[0, 0, 0, 0]" 0 4] cls
  show ?thesis by simp
qed

subsection \<open>Frame introspection\<close>

text \<open>
  Claim C8. Whenever its collaborators succeed on a frame (the array can be pinned, the
  library reports the compressed size, the decompressed size and the output type of
  output 0, and the virtual machine finds the classes and methods and allocates the
  string and the object), \<open>getCompressionInfo\<close> returns an object whose type string is
  SERIAL for the output type code 0, STRUCT for 1, NUMERIC for 2, STRING for 3 and
  UNKNOWN for every other code, and whose graph is the generic-numeric tag (what
  \<open>CompressionGraph.fromId\<close> gives for 1) for the NUMERIC code 2 and the default serial
  tag (what it gives for 0) for every other code. The code is the library's report
  converted to \<open>int\<close>; the two sizes are the ones the library reported.
\<close>

theorem getCompressionInfo_maps_type_and_graph:
  assumes len: "0 < length frame" "length frame < 2 ^ 31"
      and pin: "jvm_GetArrayElements w Src"
      and csize: "ZL_getCompressedSize w frame = ZL_value cs"
      and finfo: "ZL_FrameInfo_create w frame \<noteq> 0"
      and dsize: "ZL_FrameInfo_getDecompressedSize w frame 0 = ZL_value ds"
      and otype: "ZL_FrameInfo_getOutputType w frame 0 = ZL_value t"
      and code: "output_type = (ucast t :: jint)"
      and classes: "jvm_FindClass w CompressionInfo_class"
                   "jvm_GetMethodID w CompressionInfo_class ''<init>''"
                   "jvm_FindClass w CompressionGraph_class"
                   "jvm_GetStaticMethodID w CompressionGraph_class ''fromId''"
      and tags: "jvm_CompressionGraph_fromId w 1 = Some generic_numeric"
                "jvm_CompressionGraph_fromId w 0 = Some default_serial"
      and strings: "\<forall>s. jvm_NewStringUTF w s"
      and object: "jvm_NewObject w CompressionInfo_class"
  shows "getCompressionInfo w (Some frame) =
           (Some \<lparr>info_decompressed_size = ds,
                  info_compressed_size = cs,
                  info_graph = (if output_type = 2 then generic_numeric else default_serial),
                  info_data_type =
                    (if output_type = 0 then ''SERIAL''
                     else if output_type = 1 then ''STRUCT''
                     else if output_type = 2 then ''NUMERIC''
                     else if output_type = 3 then ''STRING''
                     else ''UNKNOWN'')\<rparr>,
            [Pin Src, Native getCompressedSize, Alloc FrameInfo,
             Native FrameInfo_getDecompressedSize, Native FrameInfo_getOutputType,
             Release FrameInfo, Unpin Src JNI_ABORT,
             FindClass CompressionInfo_class, FindClass CompressionGraph_class])"
proof -
  have pos: "\<not> sint (of_nat (length frame) :: jsize) \<le> 0"
    using len by (simp add: sint_of_nat_small)
  show ?thesis
    using pos pin csize finfo dsize otype code classes tags strings object
    by (simp add: getCompressionInfo_def data_type_str_def info_graph_id_def)
qed

theorem getCompressionInfo_maps_type_and_graph_witness:
  "getCompressionInfo store_world (Some [0, 5]) =
     (Some \<lparr>info_decompressed_size = 2, info_compressed_size = 2, info_graph = 0,
            info_data_type = ''SERIAL''\<rparr>,
      [Pin Src, Native getCompressedSize, Alloc FrameInfo,
       Native FrameInfo_getDecompressedSize, Native FrameInfo_getOutputType,
       Release FrameInfo, Unpin Src JNI_ABORT,
       FindClass CompressionInfo_class, FindClass CompressionGraph_class])
   \<and> getCompressionInfo store_world (Some [1, 5]) =
     (Some \<lparr>info_decompressed_size = 2, info_compressed_size = 2, info_graph = 0,
            info_data_type = ''STRUCT''\<rparr>,
      [Pin Src, Native getCompressedSize, Alloc FrameInfo,
       Native FrameInfo_getDecompressedSize, Native FrameInfo_getOutputType,
       Release FrameInfo, Unpin Src JNI_ABORT,
       FindClass CompressionInfo_class, FindClass CompressionGraph_class])
   \<and> getCompressionInfo store_world (Some [2, 9, 9]) =
     (Some \<lparr>info_decompressed_size = 3, info_compressed_size = 3, info_graph = 1,
            info_data_type = ''NUMERIC''\<rparr>,
      [Pin Src, Native getCompressedSize, Alloc FrameInfo,
       Native FrameInfo_getDecompressedSize, Native FrameInfo_getOutputType,
       Release FrameInfo, Unpin Src JNI_ABORT,
       FindClass CompressionInfo_class, FindClass CompressionGraph_class])
   \<and> getCompressionInfo store_world (Some [3]) =
     (Some \<lparr>info_decompressed_size = 1, info_compressed_size = 1, info_graph = 0,
            info_data_type = ''STRING''\<rparr>,
      [Pin Src, Native getCompressedSize, Alloc FrameInfo,
       Native FrameInfo_getDecompressedSize, Native FrameInfo_getOutputType,
       Release FrameInfo, Unpin Src JNI_ABORT,
       FindClass CompressionInfo_class, FindClass CompressionGraph_class])
   \<and> getCompressionInfo store_world (Some [7, 5]) =
     (Some \<lparr>info_decompressed_size = 2, info_compressed_size = 2, info_graph = 0,
            info_data_type = ''UNKNOWN''\<rparr>,
      [Pin Src, Native getCompressedSize, Alloc FrameInfo,
       Native FrameInfo_getDecompressedSize, Native FrameInfo_getOutputType,
       Release FrameInfo, Unpin Src JNI_ABORT,
       FindClass CompressionInfo_class, FindClass CompressionGraph_class])"
proof -
  have T: "getCompressionInfo store_world (Some (b # f)) =
           (Some \<lparr>info_decompressed_size = of_nat (length (b # f)),
                  info_compressed_size = of_nat (length (b # f)),
                  info_graph = (if (ucast b :: jint) = 2 then 1 else 0),
                  info_data_type =
                    (if (ucast b :: jint) = 0 then ''SERIAL''
                     else if (ucast b :: jint) = 1 then ''STRUCT''
                     else if (ucast b :: jint) = 2 then ''NUMERIC''
                     else if (ucast b :: jint) = 3 then ''STRING''
                     else ''UNKNOWN'')\<rparr>,
            [Pin Src, Native getCompressedSize, Alloc FrameInfo,
             Native FrameInfo_getDecompressedSize, Native FrameInfo_getOutputType,
             Release FrameInfo, Unpin Src JNI_ABORT,
             FindClass CompressionInfo_class, FindClass CompressionGraph_class])"
    if "length (b # f) < 2 ^ 31" for b :: jbyte and f :: "jbyte list"
  proof -
    have env: "0 < length (b # f)"
      "jvm_GetArrayElements store_world Src"
      "ZL_getCompressedSize store_world (b # f) = ZL_value (of_nat (length (b # f)))"
      "ZL_FrameInfo_create store_world (b # f) \<noteq> 0"
      "ZL_FrameInfo_getDecompressedSize store_world (b # f) 0
         = ZL_value (of_nat (length (b # f)))"
      "ZL_FrameInfo_getOutputType store_world (b # f) 0 = ZL_value (ucast b)"
      "jvm_FindClass store_world CompressionInfo_class"
      "jvm_GetMethodID store_world CompressionInfo_class ''<init>''"
      "jvm_FindClass store_world CompressionGraph_class"
      "jvm_GetStaticMethodID store_world CompressionGraph_class ''fromId''"
      "jvm_CompressionGraph_fromId store_world 1 = Some 1"
      "jvm_CompressionGraph_fromId store_world 0 = Some 0"
      "\<forall>s. jvm_NewStringUTF store_world s"
      "jvm_NewObject store_world CompressionInfo_class"
      by (simp_all add: store_world_def)
    have code: "(ucast b :: jint) = ucast (ucast b :: size_t)"
      by (simp add: ucast_up_ucast is_up)
    from getCompressionInfo_maps_type_and_graph
           [OF env(1) that env(2-6) code env(7-14)]
    show ?thesis .
  qed
  from T [of 0 "[5]"] T [of 1 "[5]"] T [of 2 "[9, 9]"] T [of 3 "[]"] T [of 7 "[5]"]
  show ?thesis
    by simp
qed

text \<open>
  Claim C9. In a virtual machine that can resolve the two exception classes,
  \<open>getCompressionInfo\<close> of \<open>null\<close> throws \<open>IllegalArgumentException\<close>, and of an array of
  length zero throws \<open>OpenZLException\<close> (the binding's native-error exception). Both
  return \<open>NULL\<close>, and neither pins the array nor calls the library: the throw is the only
  effect.
\<close>

theorem getCompressionInfo_rejects_null_and_empty:
  "(jvm_FindClass w IllegalArgumentException \<longrightarrow>
      getCompressionInfo w None =
        (None, [FindClass IllegalArgumentException,
                ThrowNew IllegalArgumentException
                  ''[Error OpenZL JNI] Compressed data cannot be null'']))
   \<and> (jvm_FindClass w OpenZLException \<longrightarrow>
      getCompressionInfo w (Some []) =
        (None, [FindClass OpenZLException,
                ThrowNew OpenZLException ''[Error OpenZL JNI] Compressed data is empty'']))"
  by (simp add: getCompressionInfo_def throw_defs)

theorem getCompressionInfo_rejects_null_and_empty_witness:
  "jvm_FindClass store_world IllegalArgumentException
   \<and> jvm_FindClass store_world OpenZLException
   \<and> getCompressionInfo store_world None =
        (None, [FindClass IllegalArgumentException,
                ThrowNew IllegalArgumentException
                  ''[Error OpenZL JNI] Compressed data cannot be null''])
   \<and> getCompressionInfo store_world (Some []) =
        (None, [FindClass OpenZLException,
                ThrowNew OpenZLException ''[Error OpenZL JNI] Compressed data is empty''])"
proof -
  have cls: "jvm_FindClass store_world IllegalArgumentException"
    "jvm_FindClass store_world OpenZLException"
    by (simp_all add: store_world_def)
  from getCompressionInfo_rejects_null_and_empty [of store_world] cls
  show ?thesis by simp
qed

subsection \<open>Pinned arrays\<close>

lemmas rel_defs = released_as_written_def throw_defs

lemma compressSerial_pins:
  "fst (compressSerial w ch p src off len) \<noteq> UB
   \<Longrightarrow> released_as_written (snd (compressSerial w ch p src off len))"
  unfolding compressSerial_def Let_def
  by (auto simp: rel_defs split_def split: if_splits)

lemma compressSerialToBuffer_pins:
  "fst (compressSerialToBuffer w ch p src off len dest doff mx) \<noteq> UB
   \<Longrightarrow> released_as_written (snd (compressSerialToBuffer w ch p src off len dest doff mx))"
  unfolding compressSerialToBuffer_def Let_def
  by (auto simp: rel_defs split_def split: if_splits)

lemma compressNumeric_pins:
  "fst (compressNumeric k w ch p data) \<noteq> UB
   \<Longrightarrow> released_as_written (snd (compressNumeric k w ch p data))"
  unfolding compressNumeric_def Let_def
  by (auto simp: rel_defs split_def split: if_splits)

lemma decompressSerial_pins:
  "fst (decompressSerial w p src off len) \<noteq> UB
   \<Longrightarrow> released_as_written (snd (decompressSerial w p src off len))"
  unfolding decompressSerial_def Let_def
  by (auto simp: rel_defs split_def split: if_splits)

lemma decompressSerialToBuffer_pins:
  "fst (decompressSerialToBuffer w p src off len dest doff mx) \<noteq> UB
   \<Longrightarrow> released_as_written (snd (decompressSerialToBuffer w p src off len dest doff mx))"
  unfolding decompressSerialToBuffer_def Let_def
  by (auto simp: rel_defs split_def split: if_splits)

lemma decompressNumeric_pins:
  "fst (decompressNumeric k w dh p src) \<noteq> UB
   \<Longrightarrow> released_as_written (snd (decompressNumeric k w dh p src))"
  unfolding decompressNumeric_def Let_def
  by (auto simp: rel_defs split_def split: if_splits)

lemmas numeric_variants = compressNumericInts_def compressNumericLongs_def
  compressNumericFloats_def compressNumericDoubles_def decompressNumericInts_def
  decompressNumericLongs_def decompressNumericFloats_def decompressNumericDoubles_def

text \<open>
  Claim C2, as the code has it. In every compress and decompress operation, on every
  path with defined behaviour (success, library failure, allocation failure), each array
  that was pinned is released exactly once, and a source array is always released with
  \<open>JNI_ABORT\<close>. A destination array is released with commit on every path that reached
  the library's compress or decompress call, whether that call succeeded or failed; on
  the paths of \<open>compressSerialToBuffer\<close> that fail before the call (the other array
  could not be pinned, the typed reference could not be created) it is released with
  \<open>JNI_ABORT\<close>.
\<close>

theorem pins_released_once_with_the_written_modes:
  assumes "fst (perform w ch dh c)"
  shows "released_as_written (snd (perform w ch dh c))"
  using assms
  by (cases c)
     (simp_all add: numeric_variants compressSerial_pins compressSerialToBuffer_pins
        compressNumeric_pins decompressSerial_pins decompressSerialToBuffer_pins
        decompressNumeric_pins)

theorem pins_released_once_with_the_written_modes_witness:
  "perform store_world sample_compressors sample_decompressors
       (DecompressSerialToBuffer 4096 [1, 2, 3] 0 3 [0, 0, 0, 0] 1 3) =
     (True, [Pin Src, Pin Dest, Native decompress, Unpin Src JNI_ABORT, Unpin Dest Commit])
   \<and> released_as_written
        [Pin Src, Pin Dest, Native decompress, Unpin Src JNI_ABORT, Unpin Dest Commit]
   \<and> perform typed_ref_failing_world sample_compressors sample_decompressors
       (CompressSerialToBuffer 4096 [1, 2, 3] 0 3 [0, 0, 0, 0] 0 4) =
     (True, [Pin Src, Pin Dest, Unpin Src JNI_ABORT, Unpin Dest JNI_ABORT,
        FindClass OpenZLException,
        ThrowNew OpenZLException ''[Error OpenZL JNI] Failed to create typed reference''])
   \<and> released_as_written
        [Pin Src, Pin Dest, Unpin Src JNI_ABORT, Unpin Dest JNI_ABORT,
         FindClass OpenZLException,
         ThrowNew OpenZLException ''[Error OpenZL JNI] Failed to create typed reference'']"
proof -
  have a: "perform store_world sample_compressors sample_decompressors
       (DecompressSerialToBuffer 4096 [1, 2, 3] 0 3 [0, 0, 0, 0] 1 3) =
     (True, [Pin Src, Pin Dest, Native decompress, Unpin Src JNI_ABORT, Unpin Dest Commit])"
    by (simp add: decompressSerialToBuffer_def store_world_def region_def write_at_def
          store_codec_def)
  have b: "perform typed_ref_failing_world sample_compressors sample_decompressors
       (CompressSerialToBuffer 4096 [1, 2, 3] 0 3 [0, 0, 0, 0] 0 4) =
     (True, [Pin Src, Pin Dest, Unpin Src JNI_ABORT, Unpin Dest JNI_ABORT,
        FindClass OpenZLException,
        ThrowNew OpenZLException ''[Error OpenZL JNI] Failed to create typed reference''])"
    by (simp add: compressSerialToBuffer_def typed_ref_failing_world_def store_world_def
          region_def throw_defs)
  from a have a': "fst (perform store_world sample_compressors sample_decompressors
       (DecompressSerialToBuffer 4096 [1, 2, 3] 0 3 [0, 0, 0, 0] 1 3))"
    by simp
  from b have b': "fst (perform typed_ref_failing_world sample_compressors sample_decompressors
       (CompressSerialToBuffer 4096 [1, 2, 3] 0 3 [0, 0, 0, 0] 0 4))"
    by simp
  from pins_released_once_with_the_written_modes [OF a']
       pins_released_once_with_the_written_modes [OF b'] a b
  show ?thesis by simp
qed

text \<open>
  The claim as the specification words it (commit for the destination on every path)
  fails: when the typed reference cannot be created, \<open>compressSerialToBuffer\<close> releases
  the destination with \<open>JNI_ABORT\<close>.
\<close>

theorem destination_released_with_abort_counterexample:
  "compressSerialToBuffer typed_ref_failing_world sample_compressors 4096
       [1, 2, 3] 0 3 [0, 0, 0, 0] 0 4 =
     (Ret (- 1, [0, 0, 0, 0]),
      [Pin Src, Pin Dest, Unpin Src JNI_ABORT, Unpin Dest JNI_ABORT,
       FindClass OpenZLException,
       ThrowNew OpenZLException ''[Error OpenZL JNI] Failed to create typed reference''])
   \<and> \<not> released_as_claimed
        [Pin Src, Pin Dest, Unpin Src JNI_ABORT, Unpin Dest JNI_ABORT,
         FindClass OpenZLException,
         ThrowNew OpenZLException ''[Error OpenZL JNI] Failed to create typed reference'']"
  by (simp add: compressSerialToBuffer_def typed_ref_failing_world_def store_world_def
        region_def throw_defs released_as_claimed_def)

subsection \<open>Negative handles\<close>

lemma decompressSerial_check:
  "jvm_FindClass w OpenZLException \<Longrightarrow>
   (if p = 0 then snd (decompressSerial w p src off len) = invalid_decompressor
    else passes_handle_check w (snd (decompressSerial w p src off len)))"
  unfolding decompressSerial_def Let_def
  by (simp add: invalid_decompressor_def passes_handle_check_def throw_defs split_def)

lemma decompressSerialToBuffer_check:
  "jvm_FindClass w OpenZLException \<Longrightarrow>
   (if p = 0 then snd (decompressSerialToBuffer w p src off len dest doff mx) = invalid_decompressor
    else passes_handle_check w (snd (decompressSerialToBuffer w p src off len dest doff mx)))"
  unfolding decompressSerialToBuffer_def Let_def
  by (simp add: invalid_decompressor_def passes_handle_check_def throw_defs split_def)

lemma decompressNumeric_check:
  "jvm_FindClass w OpenZLException \<Longrightarrow>
   (if p = 0 then snd (decompressNumeric k w dh p src) = invalid_decompressor
    else passes_handle_check w (snd (decompressNumeric k w dh p src)))"
  unfolding decompressNumeric_def Let_def
  by (simp add: invalid_decompressor_def passes_handle_check_def throw_defs split_def)

text \<open>
  Claim C5, as the code has it. Every decompress operation rejects the handle 0 with
  \<open>OpenZLException\<close> "Invalid decompressor" (in a virtual machine that can resolve the
  class) and rejects no other handle: with any handle other than 0, negative ones
  included, the operation goes past the check and pins its source array.
\<close>

theorem decompress_handle_check_rejects_zero_only:
  assumes "jvm_FindClass w OpenZLException"
  shows "(if p = 0 then snd (decompressSerial w p src off len) = invalid_decompressor
          else passes_handle_check w (snd (decompressSerial w p src off len)))
    \<and> (if p = 0
        then snd (decompressSerialToBuffer w p src off len dest dest_off max_len)
               = invalid_decompressor
        else passes_handle_check w
               (snd (decompressSerialToBuffer w p src off len dest dest_off max_len)))
    \<and> (if p = 0 then snd (decompressNumericInts w dh p frame) = invalid_decompressor
        else passes_handle_check w (snd (decompressNumericInts w dh p frame)))
    \<and> (if p = 0 then snd (decompressNumericLongs w dh p frame) = invalid_decompressor
        else passes_handle_check w (snd (decompressNumericLongs w dh p frame)))
    \<and> (if p = 0 then snd (decompressNumericFloats w dh p frame) = invalid_decompressor
        else passes_handle_check w (snd (decompressNumericFloats w dh p frame)))
    \<and> (if p = 0 then snd (decompressNumericDoubles w dh p frame) = invalid_decompressor
        else passes_handle_check w (snd (decompressNumericDoubles w dh p frame)))"
  unfolding decompressNumericInts_def decompressNumericLongs_def
    decompressNumericFloats_def decompressNumericDoubles_def
  by (intro conjI decompressSerial_check decompressSerialToBuffer_check
        decompressNumeric_check assms)

theorem decompress_handle_check_rejects_zero_only_witness:
  "jvm_FindClass store_world OpenZLException
   \<and> snd (decompressSerial store_world 0 [1, 2, 3] 0 3) = invalid_decompressor
   \<and> passes_handle_check store_world (snd (decompressSerial store_world (- 1) [1, 2, 3] 0 3))
   \<and> passes_handle_check store_world
        (snd (decompressNumericInts store_world sample_decompressors (- 1) [1, 0, 0, 0]))"
proof -
  have cls: "jvm_FindClass store_world OpenZLException"
    by (simp add: store_world_def)
  from decompress_handle_check_rejects_zero_only
         [OF cls, of 0 "[1, 2, 3]" 0 3 "[]" 0 0 sample_decompressors "[1, 0, 0, 0]"]
       decompress_handle_check_rejects_zero_only
         [OF cls, of "- 1" "[1, 2, 3]" 0 3 "[]" 0 0 sample_decompressors "[1, 0, 0, 0]"]
       cls
  show ?thesis by simp
qed

text \<open>
  The claim as the specification words it (a negative handle fails as an invalid handle)
  fails: with the handle -1, \<open>decompressSerial\<close> decompresses and returns the data.
\<close>

theorem negative_handle_is_accepted_counterexample:
  "sint (- 1 :: jlong) < 0
   \<and> decompressSerial store_world (- 1) [1, 2, 3] 0 3 =
       (Ret (Some [1, 2, 3]),
        [Pin Src, Native getDecompressedSize, Alloc Scratch, Native decompress,
         Unpin Src JNI_ABORT, Release Scratch])"
  by (simp add: decompressSerial_def store_world_def region_def store_codec_def
        NewArray_def copy_from_def)

subsection \<open>The length of a compressed array\<close>

text \<open>
  Claim C6, as the code has it. Take a call of \<open>compressSerial\<close> that reaches the
  library's compress step (valid handle, source pinned, scratch buffer of
  \<open>ZL_compressBound(src_len)\<close> bytes allocated, window inside the array, typed reference
  created) and let that step succeed within its capacity: it reports the \<open>n\<close> bytes it
  wrote, \<open>n\<close> at most the capacity. If moreover the virtual machine can allocate an
  array of \<open>n\<close> bytes and the capacity is below \<open>2^31\<close> (so that \<open>compressBound\<close>, which
  returns a \<open>jint\<close>, returns it unchanged), then the call returns a new array that holds
  the first \<open>n\<close> bytes of the scratch buffer: its length is exactly \<open>n\<close>, and at most
  \<open>compressBound(src_len)\<close>. Everything the call acquired is released.
\<close>

theorem compressSerial_result_length:
  assumes handle: "compressor_ptr \<noteq> 0" "ch compressor_ptr = Some h"
      and pin: "jvm_GetArrayElements w Src"
      and scratch: "malloc w (For_scratch (ZL_compressBound w (scast src_len))) \<noteq> 0"
      and window: "region src src_off src_len = Some input"
      and tref: "ZL_TypedRef_createSerial w input \<noteq> 0"
      and native: "ZL_CCtx_compressTypedRef w (ctx h) (ZL_compressBound w (scast src_len))
                     (Serial input) = (ZL_value n, written)"
      and honest: "unat n \<le> length written" "n \<le> ZL_compressBound w (scast src_len)"
      and fits: "unat (ZL_compressBound w (scast src_len)) < 2 ^ 31"
      and array: "jvm_NewArray w JByte (unat n)"
  shows "compressSerial w ch compressor_ptr src src_off src_len =
           (Ret (Some (take (unat n) written)),
            [Pin Src, Alloc Scratch, Alloc TypedRef, Native CCtx_compressTypedRef,
             Release TypedRef, Unpin Src JNI_ABORT, Release Scratch])
         \<and> length (take (unat n) written) = unat n
         \<and> int (length (take (unat n) written)) \<le> sint (compressBound w src_len)"
proof -
  let ?cap = "ZL_compressBound w (scast src_len)"
  have le: "unat n \<le> unat ?cap"
    using honest(2) by (simp add: word_le_nat_alt)
  with fits have small: "unat n < 2 ^ 31"
    by simp
  have arr: "NewArray w JByte (ucast n) = Some (unat n)"
    using small array by (rule NewArray_small)
  have copy: "copy_from (unat ?cap) written (unat n) = Some (take (unat n) written)"
    using le honest(1) by (simp add: copy_from_def)
  have bound: "sint (compressBound w src_len) = int (unat ?cap)"
    using fits by (simp add: compressBound_def sint_ucast_small)
  have run: "compressSerial w ch compressor_ptr src src_off src_len =
      (Ret (Some (take (unat n) written)),
       [Pin Src, Alloc Scratch, Alloc TypedRef, Native CCtx_compressTypedRef,
        Release TypedRef, Unpin Src JNI_ABORT, Release Scratch])"
    using handle pin scratch window tref native arr copy
    by (simp add: compressSerial_def)
  have "int (unat n) \<le> int (unat ?cap)"
    using le by (rule iffD2 [OF of_nat_le_iff])
  with run bound honest(1) show ?thesis
    by simp
qed

theorem compressSerial_result_length_witness:
  "compressSerial store_world sample_compressors 4096 [1, 2, 3] 0 3 =
     (Ret (Some [1, 2, 3]),
      [Pin Src, Alloc Scratch, Alloc TypedRef, Native CCtx_compressTypedRef,
       Release TypedRef, Unpin Src JNI_ABORT, Release Scratch])
   \<and> ZL_CCtx_compressTypedRef store_world 8192 (ZL_compressBound store_world (scast (3 :: jint)))
        (Serial [1, 2, 3]) = (ZL_value 3, [1, 2, 3])
   \<and> jvm_NewArray store_world JByte 3
   \<and> sint (compressBound store_world 3) = 19"
proof -
  have a: "(4096 :: jlong) \<noteq> 0"
    "sample_compressors 4096 = Some \<lparr>ctx = 8192, compressor = 12288, graph_id = ZL_GRAPH_STORE\<rparr>"
    "jvm_GetArrayElements store_world Src"
    "malloc store_world (For_scratch (ZL_compressBound store_world (scast (3 :: jint)))) \<noteq> 0"
    "region [1, 2, 3] 0 3 = Some [1, 2, 3]"
    "ZL_TypedRef_createSerial store_world [1, 2, 3] \<noteq> 0"
    by (simp_all add: sample_compressors_def store_world_def region_def)
  have b: "ZL_CCtx_compressTypedRef store_world
             (ctx \<lparr>ctx = 8192, compressor = 12288, graph_id = ZL_GRAPH_STORE\<rparr>)
             (ZL_compressBound store_world (scast (3 :: jint))) (Serial [1, 2, 3])
           = (ZL_value 3, [1, 2, 3])"
    by (simp add: store_world_def store_codec_def)
  have c: "unat (3 :: size_t) \<le> length [1 :: jbyte, 2, 3]"
    "(3 :: size_t) \<le> ZL_compressBound store_world (scast (3 :: jint))"
    "unat (ZL_compressBound store_world (scast (3 :: jint))) < 2 ^ 31"
    "jvm_NewArray store_world JByte (unat (3 :: size_t))"
    by (simp_all add: store_world_def)
  have d: "sint (compressBound store_world 3) = 19"
    by (simp add: compressBound_def store_world_def)
  from compressSerial_result_length
         [where ch = sample_compressors and compressor_ptr = 4096, OF a b c] b c(4) d
  show ?thesis
    by auto
qed

text \<open>
  The claim as the specification words it fails in two ways. When the library's compress
  step succeeds and the virtual machine cannot allocate the result array, the call
  throws \<open>OutOfMemoryError\<close> and returns \<open>NULL\<close>. And for a source of \<open>2^31 - 1\<close> bytes
  that the library stores as it is, the call returns an array of \<open>2^31 - 1\<close> bytes while
  \<open>compressBound\<close> of that length, cut to a \<open>jint\<close>, is negative.
\<close>

theorem compressSerial_result_length_counterexample:
  "ZL_CCtx_compressTypedRef array_exhausted_world 8192
       (ZL_compressBound array_exhausted_world (scast (3 :: jint))) (Serial [1, 2, 3])
     = (ZL_value 3, [1, 2, 3])
   \<and> compressSerial array_exhausted_world sample_compressors 4096 [1, 2, 3] 0 3 =
       (Ret None,
        [Pin Src, Alloc Scratch, Alloc TypedRef, Native CCtx_compressTypedRef,
         Release TypedRef, Unpin Src JNI_ABORT, Release Scratch,
         FindClass OutOfMemoryError,
         ThrowNew OutOfMemoryError ''Failed to allocate memory''])
   \<and> compressSerial store_world sample_compressors 4096
         (replicate 2147483647 0) 0 2147483647 =
       (Ret (Some (replicate 2147483647 0)),
        [Pin Src, Alloc Scratch, Alloc TypedRef, Native CCtx_compressTypedRef,
         Release TypedRef, Unpin Src JNI_ABORT, Release Scratch])
   \<and> sint (compressBound store_world 2147483647) = - 2147483633"
  by (simp add: compressSerial_def compressBound_def array_exhausted_world_def
        store_world_def sample_compressors_def region_def store_codec_def NewArray_def
        copy_from_def throw_defs)

subsection \<open>Round trip\<close>








subsection \<open>Typed decompression\<close>

text \<open>
  Claim C10 fails on the code. A frame of four elements of four bytes has a decompressed
  size of 16 bytes, so the scratch buffer has 16 bytes; the typed decompress succeeds and
  reports four elements. \<open>decompressNumericLongs\<close> allocates a \<open>long\<close> array of four
  elements and copies four times eight bytes out of the scratch buffer: 32 bytes from a
  buffer of 16. Nothing compares the reported element width or the copied size with the
  size of the buffer.
\<close>

theorem decompressNumericLongs_reads_past_scratch:
  "ZL_getDecompressedSize store_world [1, 0, 0, 0, 2, 0, 0, 0, 3, 0, 0, 0, 4, 0, 0, 0]
     = ZL_value 16
   \<and> ZL_DCtx_decompressTyped store_world 16384 16
        [1, 0, 0, 0, 2, 0, 0, 0, 3, 0, 0, 0, 4, 0, 0, 0]
     = (ZL_value 16,
        \<lparr>otype = 4, fixedWidth = 4, decompressedByteSize = 16, numElts = 4\<rparr>,
        [1, 0, 0, 0, 2, 0, 0, 0, 3, 0, 0, 0, 4, 0, 0, 0])
   \<and> NewArray store_world JLong (ucast (4 :: 64 word)) = Some 4
   \<and> 4 * elem_size JLong = 32
   \<and> copy_from 16 [1, 0, 0, 0, 2, 0, 0, 0, 3, 0, 0, 0, 4, 0, 0, 0] 32 = None
   \<and> decompressNumericLongs store_world sample_decompressors 4096
        [1, 0, 0, 0, 2, 0, 0, 0, 3, 0, 0, 0, 4, 0, 0, 0]
     = (UB, [Pin Src, Native getDecompressedSize, Alloc Scratch,
             Native DCtx_decompressTyped, Unpin Src JNI_ABORT])"
  by (simp add: decompressNumericLongs_def decompressNumeric_def store_world_def
       sample_decompressors_def store_codec_def NewArray_def copy_from_def)

end
